theory Spec2Isabelle
  imports Complex_Main "HOL-Library.Sublist"
begin

section \<open>Homework status bot: the poll, detect and notify loop of homework.py\<close>

text \<open>
  A shallow embedding of \<^verbatim>\<open>homework.py\<close>. The program polls a review API, turns the
  decoded answer into one message, and sends the message to a chat unless it equals the
  message of the previous send.

  Conventions of the model:
  \<^item> a Python \<^verbatim>\<open>str\<close> is the list of bytes of its UTF-8 encoding. The program only
    concatenates strings, compares them for equality, tests them for emptiness and
    searches one in another, and all four commute with the encoding. The literals of the
    source are Russian; they are written here byte by byte, with an English gloss;
  \<^item> a decoded JSON document is a value of the datatype \<open>json\<close>; a Python \<^verbatim>\<open>dict\<close>
    is an association list read with \<open>map_of\<close>;
  \<^item> an exception is a value of the datatype \<open>exn\<close>, and a function that may raise
    returns \<open>exn + 'a\<close>;
  \<^item> the network, the chat transport and the clock are inputs of each cycle, and what the
    program does to them is recorded as a list of events;
  \<^item> calls of the logger only write to standard output and are left out.
\<close>

subsection \<open>Strings and constants\<close>

definition sq :: "string \<Rightarrow> string" where
  "sq s = CHR 0x27 # s @ [CHR 0x27]"

definition dq :: "string \<Rightarrow> string" where
  "dq s = CHR 0x22 # s @ [CHR 0x22]"

definition digit_char :: "nat \<Rightarrow> char" where
  "digit_char d = ''0123456789'' ! d"

fun decimal :: "nat \<Rightarrow> string" where
  "decimal n = (if n < 10 then [digit_char n] else decimal (n div 10) @ [digit_char (n mod 10)])"

declare decimal.simps [simp del]

definition RETRY_PERIOD :: nat where
  "RETRY_PERIOD = 600"

definition ENDPOINT :: string where
  "ENDPOINT = ''https://practicum.yandex.ru/api/user_api/homework_statuses/''"

definition HTTP_OK :: nat where
  "HTTP_OK = 200"

text \<open>
  The values of \<^verbatim>\<open>HOMEWORK_VERDICTS\<close> (lines 21 to 25). In English:
  approved, "Work reviewed: the reviewer liked everything. Hooray!";
  reviewing, "Work taken for review by the reviewer.";
  rejected, "Work reviewed: the reviewer has remarks.".
\<close>

definition verdict_approved :: string where
  "verdict_approved =
    [CHR 0xD0, CHR 0xA0, CHR 0xD0, CHR 0xB0, CHR 0xD0, CHR 0xB1, CHR 0xD0, CHR 0xBE,
     CHR 0xD1, CHR 0x82, CHR 0xD0, CHR 0xB0, CHR 0x20, CHR 0xD0, CHR 0xBF, CHR 0xD1,
     CHR 0x80, CHR 0xD0, CHR 0xBE, CHR 0xD0, CHR 0xB2, CHR 0xD0, CHR 0xB5, CHR 0xD1,
     CHR 0x80, CHR 0xD0, CHR 0xB5, CHR 0xD0, CHR 0xBD, CHR 0xD0, CHR 0xB0, CHR 0x3A,
     CHR 0x20, CHR 0xD1, CHR 0x80, CHR 0xD0, CHR 0xB5, CHR 0xD0, CHR 0xB2, CHR 0xD1,
     CHR 0x8C, CHR 0xD1, CHR 0x8E, CHR 0xD0, CHR 0xB5, CHR 0xD1, CHR 0x80, CHR 0xD1,
     CHR 0x83, CHR 0x20, CHR 0xD0, CHR 0xB2, CHR 0xD1, CHR 0x81, CHR 0xD1, CHR 0x91,
     CHR 0x20, CHR 0xD0, CHR 0xBF, CHR 0xD0, CHR 0xBE, CHR 0xD0, CHR 0xBD, CHR 0xD1,
     CHR 0x80, CHR 0xD0, CHR 0xB0, CHR 0xD0, CHR 0xB2, CHR 0xD0, CHR 0xB8, CHR 0xD0,
     CHR 0xBB, CHR 0xD0, CHR 0xBE, CHR 0xD1, CHR 0x81, CHR 0xD1, CHR 0x8C, CHR 0x2E,
     CHR 0x20, CHR 0xD0, CHR 0xA3, CHR 0xD1, CHR 0x80, CHR 0xD0, CHR 0xB0, CHR 0x21]"

definition verdict_reviewing :: string where
  "verdict_reviewing =
    [CHR 0xD0, CHR 0xA0, CHR 0xD0, CHR 0xB0, CHR 0xD0, CHR 0xB1, CHR 0xD0, CHR 0xBE,
     CHR 0xD1, CHR 0x82, CHR 0xD0, CHR 0xB0, CHR 0x20, CHR 0xD0, CHR 0xB2, CHR 0xD0,
     CHR 0xB7, CHR 0xD1, CHR 0x8F, CHR 0xD1, CHR 0x82, CHR 0xD0, CHR 0xB0, CHR 0x20,
     CHR 0xD0, CHR 0xBD, CHR 0xD0, CHR 0xB0, CHR 0x20, CHR 0xD0, CHR 0xBF, CHR 0xD1,
     CHR 0x80, CHR 0xD0, CHR 0xBE, CHR 0xD0, CHR 0xB2, CHR 0xD0, CHR 0xB5, CHR 0xD1,
     CHR 0x80, CHR 0xD0, CHR 0xBA, CHR 0xD1, CHR 0x83, CHR 0x20, CHR 0xD1, CHR 0x80,
     CHR 0xD0, CHR 0xB5, CHR 0xD0, CHR 0xB2, CHR 0xD1, CHR 0x8C, CHR 0xD1, CHR 0x8E,
     CHR 0xD0, CHR 0xB5, CHR 0xD1, CHR 0x80, CHR 0xD0, CHR 0xBE, CHR 0xD0, CHR 0xBC,
     CHR 0x2E]"

definition verdict_rejected :: string where
  "verdict_rejected =
    [CHR 0xD0, CHR 0xA0, CHR 0xD0, CHR 0xB0, CHR 0xD0, CHR 0xB1, CHR 0xD0, CHR 0xBE,
     CHR 0xD1, CHR 0x82, CHR 0xD0, CHR 0xB0, CHR 0x20, CHR 0xD0, CHR 0xBF, CHR 0xD1,
     CHR 0x80, CHR 0xD0, CHR 0xBE, CHR 0xD0, CHR 0xB2, CHR 0xD0, CHR 0xB5, CHR 0xD1,
     CHR 0x80, CHR 0xD0, CHR 0xB5, CHR 0xD0, CHR 0xBD, CHR 0xD0, CHR 0xB0, CHR 0x3A,
     CHR 0x20, CHR 0xD1, CHR 0x83, CHR 0x20, CHR 0xD1, CHR 0x80, CHR 0xD0, CHR 0xB5,
     CHR 0xD0, CHR 0xB2, CHR 0xD1, CHR 0x8C, CHR 0xD1, CHR 0x8E, CHR 0xD0, CHR 0xB5,
     CHR 0xD1, CHR 0x80, CHR 0xD0, CHR 0xB0, CHR 0x20, CHR 0xD0, CHR 0xB5, CHR 0xD1,
     CHR 0x81, CHR 0xD1, CHR 0x82, CHR 0xD1, CHR 0x8C, CHR 0x20, CHR 0xD0, CHR 0xB7,
     CHR 0xD0, CHR 0xB0, CHR 0xD0, CHR 0xBC, CHR 0xD0, CHR 0xB5, CHR 0xD1, CHR 0x87,
     CHR 0xD0, CHR 0xB0, CHR 0xD0, CHR 0xBD, CHR 0xD0, CHR 0xB8, CHR 0xD1, CHR 0x8F,
     CHR 0x2E]"

definition HOMEWORK_VERDICTS :: "(string \<times> string) list" where
  "HOMEWORK_VERDICTS =
    [(''approved'', verdict_approved),
     (''reviewing'', verdict_reviewing),
     (''rejected'', verdict_rejected)]"

text \<open>
  The Russian parts of the other literals, in the order of the source:
  \<open>text_endpoint\<close>, \<open>text_unavailable\<close>, \<open>text_response_code\<close> (lines 63 and 64:
  "Endpoint ", " is unavailable. ", "API response code: ");
  \<open>text_wrong_type\<close> (lines 71 and 76: "Incorrect data type");
  \<open>text_missing_key\<close> (lines 73, 88, 90: "Missing key ");
  \<open>text_status_empty\<close> (line 92: "The review status of the work is empty");
  \<open>text_status_unexpected\<close> (line 95: "The review status does not match the expected
  variants");
  \<open>text_status_changed\<close> (line 101: "The review status of the work has changed ");
  \<open>text_status_unchanged\<close> (line 104: "The review status of the work has not changed");
  \<open>text_failure\<close> (line 137: "Failure in the work of the program: ").
\<close>

definition text_endpoint :: string where
  "text_endpoint =
    [CHR 0xD0, CHR 0xAD, CHR 0xD0, CHR 0xBD, CHR 0xD0, CHR 0xB4, CHR 0xD0, CHR 0xBF,
     CHR 0xD0, CHR 0xBE, CHR 0xD0, CHR 0xB8, CHR 0xD0, CHR 0xBD, CHR 0xD1, CHR 0x82,
     CHR 0x20]"

definition text_unavailable :: string where
  "text_unavailable =
    [CHR 0x20, CHR 0xD0, CHR 0xBD, CHR 0xD0, CHR 0xB5, CHR 0xD0, CHR 0xB4, CHR 0xD0,
     CHR 0xBE, CHR 0xD1, CHR 0x81, CHR 0xD1, CHR 0x82, CHR 0xD1, CHR 0x83, CHR 0xD0,
     CHR 0xBF, CHR 0xD0, CHR 0xB5, CHR 0xD0, CHR 0xBD, CHR 0x2E, CHR 0x20]"

definition text_response_code :: string where
  "text_response_code =
    [CHR 0xD0, CHR 0x9A, CHR 0xD0, CHR 0xBE, CHR 0xD0, CHR 0xB4, CHR 0x20, CHR 0xD0,
     CHR 0xBE, CHR 0xD1, CHR 0x82, CHR 0xD0, CHR 0xB2, CHR 0xD0, CHR 0xB5, CHR 0xD1,
     CHR 0x82, CHR 0xD0, CHR 0xB0, CHR 0x20, CHR 0x41, CHR 0x50, CHR 0x49, CHR 0x3A,
     CHR 0x20]"

definition text_wrong_type :: string where
  "text_wrong_type =
    [CHR 0xD0, CHR 0x9D, CHR 0xD0, CHR 0xB5, CHR 0xD0, CHR 0xBA, CHR 0xD0, CHR 0xBE,
     CHR 0xD1, CHR 0x80, CHR 0xD1, CHR 0x80, CHR 0xD0, CHR 0xB5, CHR 0xD0, CHR 0xBA,
     CHR 0xD1, CHR 0x82, CHR 0xD0, CHR 0xBD, CHR 0xD1, CHR 0x8B, CHR 0xD0, CHR 0xB9,
     CHR 0x20, CHR 0xD1, CHR 0x82, CHR 0xD0, CHR 0xB8, CHR 0xD0, CHR 0xBF, CHR 0x20,
     CHR 0xD0, CHR 0xB4, CHR 0xD0, CHR 0xB0, CHR 0xD0, CHR 0xBD, CHR 0xD0, CHR 0xBD,
     CHR 0xD1, CHR 0x8B, CHR 0xD1, CHR 0x85]"

definition text_missing_key :: string where
  "text_missing_key =
    [CHR 0xD0, CHR 0x9E, CHR 0xD1, CHR 0x82, CHR 0xD1, CHR 0x81, CHR 0xD1, CHR 0x83,
     CHR 0xD1, CHR 0x82, CHR 0xD1, CHR 0x81, CHR 0xD1, CHR 0x82, CHR 0xD0, CHR 0xB2,
     CHR 0xD1, CHR 0x83, CHR 0xD0, CHR 0xB5, CHR 0xD1, CHR 0x82, CHR 0x20, CHR 0xD0,
     CHR 0xBA, CHR 0xD0, CHR 0xBB, CHR 0xD1, CHR 0x8E, CHR 0xD1, CHR 0x87, CHR 0x20]"

definition text_status_empty :: string where
  "text_status_empty =
    [CHR 0xD0, CHR 0xA1, CHR 0xD1, CHR 0x82, CHR 0xD0, CHR 0xB0, CHR 0xD1, CHR 0x82,
     CHR 0xD1, CHR 0x83, CHR 0xD1, CHR 0x81, CHR 0x20, CHR 0xD0, CHR 0xBF, CHR 0xD1,
     CHR 0x80, CHR 0xD0, CHR 0xBE, CHR 0xD0, CHR 0xB2, CHR 0xD0, CHR 0xB5, CHR 0xD1,
     CHR 0x80, CHR 0xD0, CHR 0xBA, CHR 0xD0, CHR 0xB8, CHR 0x20, CHR 0xD1, CHR 0x80,
     CHR 0xD0, CHR 0xB0, CHR 0xD0, CHR 0xB1, CHR 0xD0, CHR 0xBE, CHR 0xD1, CHR 0x82,
     CHR 0xD1, CHR 0x8B, CHR 0x20, CHR 0xD0, CHR 0xBF, CHR 0xD1, CHR 0x83, CHR 0xD1,
     CHR 0x81, CHR 0xD1, CHR 0x82]"

definition text_status_unexpected :: string where
  "text_status_unexpected =
    [CHR 0xD0, CHR 0xA1, CHR 0xD1, CHR 0x82, CHR 0xD0, CHR 0xB0, CHR 0xD1, CHR 0x82,
     CHR 0xD1, CHR 0x83, CHR 0xD1, CHR 0x81, CHR 0x20, CHR 0xD0, CHR 0xBF, CHR 0xD1,
     CHR 0x80, CHR 0xD0, CHR 0xBE, CHR 0xD0, CHR 0xB2, CHR 0xD0, CHR 0xB5, CHR 0xD1,
     CHR 0x80, CHR 0xD0, CHR 0xBA, CHR 0xD0, CHR 0xB8, CHR 0x20, CHR 0xD0, CHR 0xBD,
     CHR 0xD0, CHR 0xB5, CHR 0x20, CHR 0xD1, CHR 0x81, CHR 0xD0, CHR 0xBE, CHR 0xD0,
     CHR 0xBE, CHR 0xD1, CHR 0x82, CHR 0xD0, CHR 0xB2, CHR 0xD0, CHR 0xB5, CHR 0xD1,
     CHR 0x82, CHR 0xD1, CHR 0x81, CHR 0xD1, CHR 0x82, CHR 0xD0, CHR 0xB2, CHR 0xD1,
     CHR 0x83, CHR 0xD0, CHR 0xB5, CHR 0xD1, CHR 0x82, CHR 0x20, CHR 0xD0, CHR 0xBE,
     CHR 0xD0, CHR 0xB6, CHR 0xD0, CHR 0xB8, CHR 0xD0, CHR 0xB4, CHR 0xD0, CHR 0xB0,
     CHR 0xD0, CHR 0xB5, CHR 0xD0, CHR 0xBC, CHR 0xD1, CHR 0x8B, CHR 0xD0, CHR 0xBC,
     CHR 0x20, CHR 0xD0, CHR 0xB2, CHR 0xD0, CHR 0xB0, CHR 0xD1, CHR 0x80, CHR 0xD0,
     CHR 0xB8, CHR 0xD0, CHR 0xB0, CHR 0xD0, CHR 0xBD, CHR 0xD1, CHR 0x82, CHR 0xD0,
     CHR 0xB0, CHR 0xD0, CHR 0xBC]"

definition text_status_changed :: string where
  "text_status_changed =
    [CHR 0xD0, CHR 0x98, CHR 0xD0, CHR 0xB7, CHR 0xD0, CHR 0xBC, CHR 0xD0, CHR 0xB5,
     CHR 0xD0, CHR 0xBD, CHR 0xD0, CHR 0xB8, CHR 0xD0, CHR 0xBB, CHR 0xD1, CHR 0x81,
     CHR 0xD1, CHR 0x8F, CHR 0x20, CHR 0xD1, CHR 0x81, CHR 0xD1, CHR 0x82, CHR 0xD0,
     CHR 0xB0, CHR 0xD1, CHR 0x82, CHR 0xD1, CHR 0x83, CHR 0xD1, CHR 0x81, CHR 0x20,
     CHR 0xD0, CHR 0xBF, CHR 0xD1, CHR 0x80, CHR 0xD0, CHR 0xBE, CHR 0xD0, CHR 0xB2,
     CHR 0xD0, CHR 0xB5, CHR 0xD1, CHR 0x80, CHR 0xD0, CHR 0xBA, CHR 0xD0, CHR 0xB8,
     CHR 0x20, CHR 0xD1, CHR 0x80, CHR 0xD0, CHR 0xB0, CHR 0xD0, CHR 0xB1, CHR 0xD0,
     CHR 0xBE, CHR 0xD1, CHR 0x82, CHR 0xD1, CHR 0x8B, CHR 0x20]"

definition text_status_unchanged :: string where
  "text_status_unchanged =
    [CHR 0xD0, CHR 0xA1, CHR 0xD1, CHR 0x82, CHR 0xD0, CHR 0xB0, CHR 0xD1, CHR 0x82,
     CHR 0xD1, CHR 0x83, CHR 0xD1, CHR 0x81, CHR 0x20, CHR 0xD0, CHR 0xBF, CHR 0xD1,
     CHR 0x80, CHR 0xD0, CHR 0xBE, CHR 0xD0, CHR 0xB2, CHR 0xD0, CHR 0xB5, CHR 0xD1,
     CHR 0x80, CHR 0xD0, CHR 0xBA, CHR 0xD0, CHR 0xB8, CHR 0x20, CHR 0xD1, CHR 0x80,
     CHR 0xD0, CHR 0xB0, CHR 0xD0, CHR 0xB1, CHR 0xD0, CHR 0xBE, CHR 0xD1, CHR 0x82,
     CHR 0xD1, CHR 0x8B, CHR 0x20, CHR 0xD0, CHR 0xBD, CHR 0xD0, CHR 0xB5, CHR 0x20,
     CHR 0xD0, CHR 0xB8, CHR 0xD0, CHR 0xB7, CHR 0xD0, CHR 0xBC, CHR 0xD0, CHR 0xB5,
     CHR 0xD0, CHR 0xBD, CHR 0xD0, CHR 0xB8, CHR 0xD0, CHR 0xBB, CHR 0xD1, CHR 0x81,
     CHR 0xD1, CHR 0x8F]"

definition text_failure :: string where
  "text_failure =
    [CHR 0xD0, CHR 0xA1, CHR 0xD0, CHR 0xB1, CHR 0xD0, CHR 0xBE, CHR 0xD0, CHR 0xB9,
     CHR 0x20, CHR 0xD0, CHR 0xB2, CHR 0x20, CHR 0xD1, CHR 0x80, CHR 0xD0, CHR 0xB0,
     CHR 0xD0, CHR 0xB1, CHR 0xD0, CHR 0xBE, CHR 0xD1, CHR 0x82, CHR 0xD0, CHR 0xB5,
     CHR 0x20, CHR 0xD0, CHR 0xBF, CHR 0xD1, CHR 0x80, CHR 0xD0, CHR 0xBE, CHR 0xD0,
     CHR 0xB3, CHR 0xD1, CHR 0x80, CHR 0xD0, CHR 0xB0, CHR 0xD0, CHR 0xBC, CHR 0xD0,
     CHR 0xBC, CHR 0xD1, CHR 0x8B, CHR 0x3A, CHR 0x20]"

subsection \<open>Decoded documents and exceptions\<close>

text \<open>
  What \<^verbatim>\<open>response.json()\<close> can return. A float is the real number it denotes, or one of
  the three values that are not numbers, which Python's decoder accepts.
\<close>

datatype pyfloat = Finite real | NaN | PosInf | NegInf

datatype json =
    JNull
  | JBool bool
  | JInt int
  | JFloat pyfloat
  | JStr string
  | JList "json list"
  | JDict "(string \<times> json) list"

text \<open>
  The exceptions the program can raise, each with the text it was built with.
  \<open>RequestsJSONDecodeError\<close> is what \<^verbatim>\<open>response.json()\<close> raises on a body that is not JSON.
\<close>

datatype exn =
    ConnectionError string
  | TypeError string
  | KeyError string
  | ValueError string
  | AttributeError string
  | UnboundLocalError string
  | RequestsJSONDecodeError string

text \<open>
  \<^verbatim>\<open>f'{error}'\<close>, that is \<^verbatim>\<open>str(error)\<close>: the text of the exception, except for a
  \<^verbatim>\<open>KeyError\<close>, whose \<^verbatim>\<open>str\<close> is the \<^verbatim>\<open>repr\<close> of its argument. Every \<^verbatim>\<open>KeyError\<close>
  of this program carries a literal without apostrophe, backslash or control character,
  whose \<^verbatim>\<open>repr\<close> is the literal between apostrophes.
\<close>

fun exc_str :: "exn \<Rightarrow> string" where
  "exc_str (ConnectionError m) = m"
| "exc_str (TypeError m) = m"
| "exc_str (KeyError m) = sq m"
| "exc_str (ValueError m) = m"
| "exc_str (AttributeError m) = m"
| "exc_str (UnboundLocalError m) = m"
| "exc_str (RequestsJSONDecodeError m) = m"

subsection \<open>The operations of Python the program applies to a decoded value\<close>

fun type_name :: "json \<Rightarrow> string" where
  "type_name JNull = ''NoneType''"
| "type_name (JBool b) = ''bool''"
| "type_name (JInt i) = ''int''"
| "type_name (JFloat f) = ''float''"
| "type_name (JStr s) = ''str''"
| "type_name (JList l) = ''list''"
| "type_name (JDict d) = ''dict''"

text \<open>\<^verbatim>\<open>f'{type(v)}'\<close>, for instance \<^verbatim>\<open><class 'list'>\<close>.\<close>

definition type_repr :: "json \<Rightarrow> string" where
  "type_repr v = ''<class '' @ sq (type_name v) @ ''>''"

text \<open>The truth value of \<^verbatim>\<open>v\<close> in \<^verbatim>\<open>if v\<close> and \<^verbatim>\<open>not v\<close>.\<close>

fun truthy :: "json \<Rightarrow> bool" where
  "truthy JNull = False"
| "truthy (JBool b) = b"
| "truthy (JInt i) = (i \<noteq> 0)"
| "truthy (JFloat f) = (f \<noteq> Finite 0)"
| "truthy (JStr s) = (s \<noteq> [])"
| "truthy (JList l) = (l \<noteq> [])"
| "truthy (JDict d) = (d \<noteq> [])"

text \<open>
  \<^verbatim>\<open>key in v\<close> for a string \<^verbatim>\<open>key\<close>: a key of a dict, a substring of a string, an
  element of a list; any other value is not iterable. The texts of the exceptions the
  interpreter itself raises are those of CPython 3.7 to 3.10.
\<close>

fun py_in :: "string \<Rightarrow> json \<Rightarrow> exn + bool" where
  "py_in key (JDict d) = Inr (map_of d key \<noteq> None)"
| "py_in key (JStr s) = Inr (sublist key s)"
| "py_in key (JList l) = Inr (JStr key \<in> set l)"
| "py_in key v = Inl (TypeError (''argument of type '' @ sq (type_name v) @ '' is not iterable''))"

text \<open>\<^verbatim>\<open>v[key]\<close> for a string \<^verbatim>\<open>key\<close>.\<close>

fun py_getitem :: "json \<Rightarrow> string \<Rightarrow> exn + json" where
  "py_getitem (JDict d) key = (case map_of d key of None \<Rightarrow> Inl (KeyError key) | Some x \<Rightarrow> Inr x)"
| "py_getitem (JStr s) key = Inl (TypeError ''string indices must be integers'')"
| "py_getitem (JList l) key = Inl (TypeError ''list indices must be integers or slices, not str'')"
| "py_getitem v key = Inl (TypeError (sq (type_name v) @ '' object is not subscriptable''))"

text \<open>\<^verbatim>\<open>v.get(key)\<close>: only a dict has the method; a missing key gives \<^verbatim>\<open>None\<close>.\<close>

fun py_get :: "json \<Rightarrow> string \<Rightarrow> exn + json" where
  "py_get (JDict d) key = Inr (case map_of d key of None \<Rightarrow> JNull | Some x \<Rightarrow> x)"
| "py_get v key =
     Inl (AttributeError (sq (type_name v) @ '' object has no attribute '' @ sq ''get''))"

text \<open>
  \<^verbatim>\<open>HOMEWORK_VERDICTS.get(status)\<close> as the tests \<^verbatim>\<open>status not in HOMEWORK_VERDICTS\<close>
  and \<^verbatim>\<open>HOMEWORK_VERDICTS[status]\<close> need it: a list or a dict cannot be hashed, a string is
  looked up, and any other value equals no key of the table.
\<close>

fun verdict_for :: "json \<Rightarrow> exn + string option" where
  "verdict_for (JStr s) = Inr (map_of HOMEWORK_VERDICTS s)"
| "verdict_for (JList l) = Inl (TypeError (''unhashable type: '' @ sq ''list''))"
| "verdict_for (JDict d) = Inl (TypeError (''unhashable type: '' @ sq ''dict''))"
| "verdict_for v = Inr None"

text \<open>
  \<^verbatim>\<open>f'{v}'\<close>: a string is formatted as itself. For any other value the text is the one
  Python's \<^verbatim>\<open>str\<close> builds, which is not part of the program: it is the parameter
  \<open>str\<close> of the model.
\<close>

definition format_value :: "(json \<Rightarrow> string) \<Rightarrow> json \<Rightarrow> string" where
  "format_value str v = (case v of JStr s \<Rightarrow> s | _ \<Rightarrow> str v)"

text \<open>Sequencing of steps that may raise: the first exception ends the sequence.\<close>

definition bind :: "exn + 'a \<Rightarrow> ('a \<Rightarrow> exn + 'b) \<Rightarrow> exn + 'b" where
  "bind r f = (case r of Inl e \<Rightarrow> Inl e | Inr x \<Rightarrow> f x)"

subsection \<open>Configuration: \<^verbatim>\<open>check_tokens\<close>\<close>

text \<open>
  The three module variables read with \<^verbatim>\<open>os.getenv\<close>, which gives \<^verbatim>\<open>None\<close> for a
  variable that is absent.
\<close>

record environment =
  PRACTICUM_TOKEN :: "string option"
  TELEGRAM_TOKEN :: "string option"
  TELEGRAM_CHAT_ID :: "string option"

definition token_set :: "string option \<Rightarrow> bool" where
  "token_set v = (case v of None \<Rightarrow> False | Some s \<Rightarrow> s \<noteq> [])"

definition check_tokens :: "environment \<Rightarrow> bool" where
  "check_tokens env =
     list_all token_set [PRACTICUM_TOKEN env, TELEGRAM_TOKEN env, TELEGRAM_CHAT_ID env]"

subsection \<open>The status API: \<^verbatim>\<open>get_api_answer\<close>\<close>

text \<open>
  What one call of \<^verbatim>\<open>requests.get\<close> does: it raises a \<^verbatim>\<open>RequestException\<close> (connection
  refused, timeout, DNS failure), or it returns a response with a status code and a body
  that \<^verbatim>\<open>json()\<close> decodes or rejects.
\<close>

datatype body = Undecodable string | Decoded json

datatype http_outcome = RequestException string | Response nat body

text \<open>
  The handler of \<^verbatim>\<open>RequestException\<close> only logs, and the next statement reads the
  variable \<^verbatim>\<open>homeworks\<close>, which the failed call never assigned: the interpreter raises
  \<^verbatim>\<open>UnboundLocalError\<close> there.
\<close>

definition unbound_local_text :: "string \<Rightarrow> string" where
  "unbound_local_text v = ''local variable '' @ sq v @ '' referenced before assignment''"

definition unavailable_text :: "nat \<Rightarrow> string" where
  "unavailable_text status_code =
     text_endpoint @ ENDPOINT @ text_unavailable @ text_response_code @ decimal status_code"

definition get_api_answer :: "json \<Rightarrow> http_outcome \<Rightarrow> exn + json" where
  "get_api_answer timestamp outcome =
     (case outcome of
        RequestException error \<Rightarrow> Inl (UnboundLocalError (unbound_local_text ''homeworks''))
      | Response status_code b \<Rightarrow>
          if status_code \<noteq> HTTP_OK then Inl (ConnectionError (unavailable_text status_code))
          else (case b of
                  Undecodable m \<Rightarrow> Inl (RequestsJSONDecodeError m)
                | Decoded document \<Rightarrow> Inr document))"

subsection \<open>Validation and translation: \<^verbatim>\<open>check_response\<close>, \<^verbatim>\<open>parse_status\<close>\<close>

definition check_response :: "json \<Rightarrow> exn + json" where
  "check_response response =
     (case response of
        JDict d \<Rightarrow>
          (case map_of d ''homeworks'' of
             None \<Rightarrow> Inl (KeyError (text_missing_key @ dq ''homeworks''))
           | Some (JList homeworks) \<Rightarrow>
               (case homeworks of [] \<Rightarrow> Inr (JDict []) | first # rest \<Rightarrow> Inr first)
           | Some other \<Rightarrow> Inl (TypeError (text_wrong_type @ '' '' @ type_repr other)))
      | _ \<Rightarrow> Inl (TypeError (text_wrong_type @ '': '' @ type_repr response)))"

definition status_changed_message :: "string \<Rightarrow> string \<Rightarrow> string" where
  "status_changed_message homework_name verdict =
     text_status_changed @ dq homework_name @ ''. '' @ verdict"

definition parse_status :: "(json \<Rightarrow> string) \<Rightarrow> json \<Rightarrow> exn + string" where
  "parse_status str homework =
     (if truthy homework then
        bind (py_in ''homework_name'' homework) (\<lambda>has_name.
        if \<not> has_name then Inl (KeyError (text_missing_key @ dq ''homework_name''))
        else
        bind (py_in ''status'' homework) (\<lambda>has_status.
        if \<not> has_status then Inl (KeyError (text_missing_key @ dq ''status''))
        else
        bind (py_getitem homework ''status'') (\<lambda>status.
        if \<not> truthy status then Inl (ValueError text_status_empty)
        else
        bind (verdict_for status) (\<lambda>found.
        case found of
          None \<Rightarrow> Inl (KeyError text_status_unexpected)
        | Some verdict \<Rightarrow>
            bind (py_getitem homework ''homework_name'') (\<lambda>homework_name.
            Inr (status_changed_message (format_value str homework_name) verdict))))))
      else Inr text_status_unchanged)"

subsection \<open>The notifier and the poll loop: \<^verbatim>\<open>send_message\<close>, \<^verbatim>\<open>main\<close>\<close>

text \<open>
  What one call of \<^verbatim>\<open>bot.send_message\<close> does: it delivers, or it raises a
  \<^verbatim>\<open>TelegramError\<close>.
\<close>

datatype send_outcome = Delivered | TelegramError string

text \<open>
  The events of a run: the call of \<^verbatim>\<open>check_tokens\<close>, the exit of the process, the
  creation of the bot client, a request to the API with its \<^verbatim>\<open>from_date\<close>, a call of the
  chat transport with the message and what became of it, a sleep.
\<close>

datatype event =
    TokensChecked
  | Exit
  | BotCreated
  | Request json
  | Send string send_outcome
  | Sleep nat

text \<open>
  \<^verbatim>\<open>send_message\<close> calls the transport once. A \<^verbatim>\<open>TelegramError\<close> is caught and logged;
  the function returns \<^verbatim>\<open>None\<close> either way, so its only result is the event.
\<close>

definition send_message :: "string \<Rightarrow> send_outcome \<Rightarrow> event list" where
  "send_message message outcome = [Send message outcome]"

text \<open>
  The variables of \<^verbatim>\<open>main\<close> that live across cycles: the value under \<^verbatim>\<open>from_date\<close>
  in \<^verbatim>\<open>timestamp\<close>, and \<^verbatim>\<open>previous_message\<close>. The inputs of one cycle are what the
  API and the chat transport do in it.
\<close>

record loop_state =
  from_date :: json
  previous_message :: string

record cycle_input =
  api :: http_outcome
  transport :: send_outcome

text \<open>
  The body of \<^verbatim>\<open>try\<close> up to the message (lines 124 to 130). The assignment to
  \<^verbatim>\<open>timestamp\<close> stands between the fetch and the validation, so the state it returns
  with an exception is the state at the point of the raise.
\<close>

definition try_body :: "(json \<Rightarrow> string) \<Rightarrow> loop_state \<Rightarrow> http_outcome \<Rightarrow> loop_state \<times> (exn + string)" where
  "try_body str st outcome =
     (case get_api_answer (from_date st) outcome of
        Inl e \<Rightarrow> (st, Inl e)
      | Inr response \<Rightarrow>
          (case py_get response ''current_date'' of
             Inl e \<Rightarrow> (st, Inl e)
           | Inr current_date \<Rightarrow>
               (st\<lparr>from_date := current_date\<rparr>,
                bind (check_response response) (parse_status str))))"

text \<open>
  The message of the cycle: the one \<^verbatim>\<open>parse_status\<close> returned, or the report the
  \<^verbatim>\<open>except\<close> clause builds from the exception (line 137).
\<close>

definition failure_report :: "exn \<Rightarrow> string" where
  "failure_report error = text_failure @ exc_str error"

definition candidate :: "exn + string \<Rightarrow> string" where
  "candidate r = (case r of Inl error \<Rightarrow> failure_report error | Inr message \<Rightarrow> message)"

text \<open>
  The three statements that end both the \<^verbatim>\<open>try\<close> body and the \<^verbatim>\<open>except\<close> clause
  (lines 131 to 134 and 139 to 142).
\<close>

definition notify :: "loop_state \<Rightarrow> string \<Rightarrow> send_outcome \<Rightarrow> loop_state \<times> event list" where
  "notify st message outcome =
     (if message = previous_message st then (st, [])
      else (st\<lparr>previous_message := message\<rparr>, send_message message outcome))"

text \<open>One iteration of \<^verbatim>\<open>while True\<close>; the \<^verbatim>\<open>finally\<close> clause sleeps on every path.\<close>

definition cycle :: "(json \<Rightarrow> string) \<Rightarrow> loop_state \<Rightarrow> cycle_input \<Rightarrow> loop_state \<times> event list" where
  "cycle str st inp =
     (let (st1, r) = try_body str st (api inp);
          (st2, sends) = notify st1 (candidate r) (transport inp)
      in (st2, Request (from_date st) # sends @ [Sleep RETRY_PERIOD]))"

text \<open>
  The loop never ends by itself. \<open>poll_loop\<close> runs it for as many cycles as it is given
  inputs, and returns the state and the events of that prefix of the run.
\<close>

fun poll_loop :: "(json \<Rightarrow> string) \<Rightarrow> loop_state \<Rightarrow> cycle_input list \<Rightarrow> loop_state \<times> event list" where
  "poll_loop str st [] = (st, [])"
| "poll_loop str st (inp # inps) =
     (let (st1, evs) = cycle str st inp;
          (st2, evs') = poll_loop str st1 inps
      in (st2, evs @ evs'))"

definition initial_state :: "int \<Rightarrow> loop_state" where
  "initial_state now = \<lparr>from_date = JInt now, previous_message = []\<rparr>"

text \<open>
  \<^verbatim>\<open>main\<close>, with the environment, the clock reading \<^verbatim>\<open>int(time.time())\<close> and the
  inputs of the cycles: the events of the run.
\<close>

definition main :: "environment \<Rightarrow> int \<Rightarrow> (json \<Rightarrow> string) \<Rightarrow> cycle_input list \<Rightarrow> event list" where
  "main env now str inps =
     TokensChecked #
     (if \<not> check_tokens env then [Exit]
      else BotCreated # snd (poll_loop str (initial_state now) inps))"

text \<open>The messages handed to the chat transport, in order.\<close>

fun sent :: "event list \<Rightarrow> string list" where
  "sent [] = []"
| "sent (Send message outcome # evs) = message # sent evs"
| "sent (ev # evs) = sent evs"

text \<open>The requests made to the API, in order, each with its \<^verbatim>\<open>from_date\<close>.\<close>

fun requested :: "event list \<Rightarrow> json list" where
  "requested [] = []"
| "requested (Request cursor # evs) = cursor # requested evs"
| "requested (ev # evs) = requested evs"

subsection \<open>Concrete inputs\<close>

text \<open>
  An instance of the parameter \<open>str\<close> for evaluating the model on concrete inputs:
  Python's \<^verbatim>\<open>str\<close> on \<^verbatim>\<open>None\<close>, the booleans, the integers and the strings. The
  texts of floats, lists and dicts are not built here (the instance gives them the empty
  text), and no input evaluated below formats one.
\<close>

definition sample_str :: "json \<Rightarrow> string" where
  "sample_str v =
     (case v of
        JNull \<Rightarrow> ''None''
      | JBool b \<Rightarrow> (if b then ''True'' else ''False'')
      | JInt i \<Rightarrow> (if i < 0 then CHR ''-'' # decimal (nat (- i)) else decimal (nat i))
      | JStr s \<Rightarrow> s
      | _ \<Rightarrow> [])"

text \<open>
  The responses of the scenarios of the specification:
  \<^verbatim>\<open>{"current_date": 100, "homeworks": []}\<close>,
  \<^verbatim>\<open>{"current_date": 200, "homeworks": [{"homework_name": "hw1", "status": "approved"}]}\<close>,
  \<^verbatim>\<open>{"current_date": 300, "homeworks": [{"homework_name": "hw1", "status": "bogus"}]}\<close>.
\<close>

definition scenario_a :: json where
  "scenario_a = JDict [(''current_date'', JInt 100), (''homeworks'', JList [])]"

definition scenario_b :: json where
  "scenario_b =
     JDict [(''current_date'', JInt 200),
            (''homeworks'',
             JList [JDict [(''homework_name'', JStr ''hw1''), (''status'', JStr ''approved'')]])]"

definition scenario_c :: json where
  "scenario_c =
     JDict [(''current_date'', JInt 300),
            (''homeworks'',
             JList [JDict [(''homework_name'', JStr ''hw1''), (''status'', JStr ''bogus'')]])]"

definition answers :: "json \<Rightarrow> cycle_input" where
  "answers document = \<lparr>api = Response 200 (Decoded document), transport = Delivered\<rparr>"

section \<open>Properties\<close>

subsection \<open>Events, messages and the steps of a cycle\<close>

lemma sent_append: "sent (xs @ ys) = sent xs @ sent ys"
  by (induction xs rule: sent.induct) simp_all

lemma requested_append: "requested (xs @ ys) = requested xs @ requested ys"
  by (induction xs rule: requested.induct) simp_all

lemma poll_loop_Cons:
  "poll_loop str st (inp # inps) =
     (fst (poll_loop str (fst (cycle str st inp)) inps),
      snd (cycle str st inp) @ snd (poll_loop str (fst (cycle str st inp)) inps))"
  by (simp split: prod.splits)

declare poll_loop.simps(2) [simp del]

lemma failure_report_nonempty: "failure_report e \<noteq> []"
  by (simp add: failure_report_def text_failure_def)

lemma parse_status_nonempty: "parse_status str h = Inr m \<Longrightarrow> m \<noteq> []"
  by (auto simp: parse_status_def bind_def status_changed_message_def text_status_changed_def
      text_status_unchanged_def split: if_splits sum.splits option.splits)

lemma try_body_previous_message: "previous_message (fst (try_body str st a)) = previous_message st"
  by (simp add: try_body_def split: sum.splits)

lemma try_body_result: "snd (try_body str st a) = snd (try_body str st' a)"
  by (simp add: try_body_def get_api_answer_def split: sum.splits http_outcome.splits body.splits)

lemma candidate_nonempty: "candidate (snd (try_body str st a)) \<noteq> []"
  by (auto simp: candidate_def try_body_def bind_def failure_report_nonempty
      dest: parse_status_nonempty split: sum.splits)

lemma cycle_previous_message:
  "previous_message (fst (cycle str st inp)) = candidate (snd (try_body str st (api inp)))"
  by (simp add: cycle_def notify_def Let_def try_body_previous_message split: prod.splits)

lemma cycle_sent:
  "sent (snd (cycle str st inp)) =
     (if candidate (snd (try_body str st (api inp))) = previous_message st then []
      else [candidate (snd (try_body str st (api inp)))])"
  by (simp add: cycle_def notify_def Let_def send_message_def sent_append split: prod.splits)
     (metis fst_conv try_body_previous_message)

lemma cycle_from_date:
  "from_date (fst (cycle str st inp)) = from_date (fst (try_body str st (api inp)))"
  by (simp add: cycle_def notify_def Let_def split: prod.splits)

lemma cycle_requested: "requested (snd (cycle str st inp)) = [from_date st]"
  by (simp add: cycle_def notify_def Let_def send_message_def requested_append split: prod.splits)

lemma sent_main:
  "sent (main env now str inps) =
     (if check_tokens env then sent (snd (poll_loop str (initial_state now) inps)) else [])"
  by (simp add: main_def)

text \<open>
  The sends of any run from any state: no two in a row carry the same message, and the
  first of them differs from the message remembered at the start.
\<close>

lemma poll_loop_sent:
  "distinct_adj (sent (snd (poll_loop str st inps))) \<and>
   (sent (snd (poll_loop str st inps)) \<noteq> [] \<longrightarrow>
      hd (sent (snd (poll_loop str st inps))) \<noteq> previous_message st)"
proof (induction inps arbitrary: st)
  case Nil
  show ?case by simp
next
  case (Cons inp inps)
  define m where "m = candidate (snd (try_body str st (api inp)))"
  define rest where "rest = sent (snd (poll_loop str (fst (cycle str st inp)) inps))"
  have sends: "sent (snd (poll_loop str st (inp # inps))) =
      (if m = previous_message st then [] else [m]) @ rest"
    unfolding m_def rest_def by (simp add: poll_loop_Cons sent_append cycle_sent)
  have "previous_message (fst (cycle str st inp)) = m"
    unfolding m_def by (rule cycle_previous_message)
  with Cons.IH [of "fst (cycle str st inp)"]
  have rest: "distinct_adj rest" "rest \<noteq> [] \<longrightarrow> hd rest \<noteq> m"
    unfolding rest_def by simp_all
  show ?case
    unfolding sends using rest by (auto simp: distinct_adj_Cons)
qed

subsection \<open>Evaluation of the scenarios\<close>

lemma get_api_answer_ok: "get_api_answer ts (Response 200 (Decoded document)) = Inr document"
  by (simp add: get_api_answer_def HTTP_OK_def)

lemma try_body_dict:
  "try_body str st (Response 200 (Decoded (JDict d))) =
     (st\<lparr>from_date := (case map_of d ''current_date'' of None \<Rightarrow> JNull | Some v \<Rightarrow> v)\<rparr>,
      bind (check_response (JDict d)) (parse_status str))"
  by (simp add: try_body_def get_api_answer_ok)

lemma check_response_scenario_a: "check_response scenario_a = Inr (JDict [])"
  by (simp add: check_response_def scenario_a_def)

lemma check_response_scenario_b:
  "check_response scenario_b =
     Inr (JDict [(''homework_name'', JStr ''hw1''), (''status'', JStr ''approved'')])"
  by (simp add: check_response_def scenario_b_def)

lemma check_response_scenario_c:
  "check_response scenario_c =
     Inr (JDict [(''homework_name'', JStr ''hw1''), (''status'', JStr ''bogus'')])"
  by (simp add: check_response_def scenario_c_def)

lemma parse_status_approved:
  "parse_status str (JDict [(''homework_name'', JStr ''hw1''), (''status'', JStr ''approved'')]) =
     Inr (status_changed_message ''hw1'' verdict_approved)"
  by (simp add: parse_status_def bind_def HOMEWORK_VERDICTS_def format_value_def)

lemma parse_status_bogus:
  "parse_status str (JDict [(''homework_name'', JStr ''hw1''), (''status'', JStr ''bogus'')]) =
     Inl (KeyError text_status_unexpected)"
  by (simp add: parse_status_def bind_def HOMEWORK_VERDICTS_def)

lemma parse_status_sentinel: "parse_status str (JDict []) = Inr text_status_unchanged"
  by (simp add: parse_status_def)

lemma try_body_scenario_a:
  "try_body str st (Response 200 (Decoded scenario_a)) =
     (st\<lparr>from_date := JInt 100\<rparr>, Inr text_status_unchanged)"
  using check_response_scenario_a unfolding scenario_a_def try_body_dict
  by (simp add: bind_def parse_status_sentinel)

lemma try_body_scenario_b:
  "try_body str st (Response 200 (Decoded scenario_b)) =
     (st\<lparr>from_date := JInt 200\<rparr>, Inr (status_changed_message ''hw1'' verdict_approved))"
  using check_response_scenario_b unfolding scenario_b_def try_body_dict
  by (simp add: bind_def parse_status_approved)

lemma try_body_scenario_c:
  "try_body str st (Response 200 (Decoded scenario_c)) =
     (st\<lparr>from_date := JInt 300\<rparr>, Inl (KeyError text_status_unexpected))"
  using check_response_scenario_c unfolding scenario_c_def try_body_dict
  by (simp add: bind_def parse_status_bogus)

lemma api_answers: "api (answers document) = Response 200 (Decoded document)"
  by (simp add: answers_def)

lemma status_changed_message_nonempty: "status_changed_message n v \<noteq> []"
  by (simp add: status_changed_message_def text_status_changed_def)

subsection \<open>Deduplication of the sends\<close>

text \<open>
  Claim C1. For every environment, start time and sequence of cycles, no two sends in a
  row of a run of \<open>main\<close> carry the same message, whether the messages are status
  messages or failure reports. And in every cycle, from every state, if
  \<open>previous_message\<close> changes then the message of the cycle differed from it, the new
  value is that message, and the cycle made exactly one send, of that message.
\<close>

theorem no_consecutive_duplicate_sends:
  "distinct_adj (sent (main env now str inps)) \<and>
   (previous_message (fst (cycle str st inp)) \<noteq> previous_message st \<longrightarrow>
      candidate (snd (try_body str st (api inp))) \<noteq> previous_message st \<and>
      previous_message (fst (cycle str st inp)) = candidate (snd (try_body str st (api inp))) \<and>
      sent (snd (cycle str st inp)) = [candidate (snd (try_body str st (api inp)))])"
proof -
  have "distinct_adj (sent (main env now str inps))"
    using poll_loop_sent [of str "initial_state now" inps] by (simp add: sent_main)
  moreover have "previous_message (fst (cycle str st inp)) =
      candidate (snd (try_body str st (api inp)))"
    by (rule cycle_previous_message)
  ultimately show ?thesis
    by (simp add: cycle_sent)
qed

theorem no_consecutive_duplicate_sends_witness:
  "previous_message (fst (cycle sample_str (initial_state 0) (answers scenario_b))) \<noteq>
     previous_message (initial_state 0) \<and>
   distinct_adj (sent (main \<lparr>PRACTICUM_TOKEN = Some ''p'', TELEGRAM_TOKEN = Some ''t'',
     TELEGRAM_CHAT_ID = Some ''1''\<rparr> 0 sample_str [answers scenario_b, answers scenario_b])) \<and>
   sent (snd (cycle sample_str (initial_state 0) (answers scenario_b))) =
     [status_changed_message ''hw1'' verdict_approved]"
proof -
  have h: "previous_message (fst (cycle sample_str (initial_state 0) (answers scenario_b))) \<noteq>
      previous_message (initial_state 0)"
    by (simp add: cycle_previous_message api_answers try_body_scenario_b candidate_def
        status_changed_message_nonempty initial_state_def)
  from no_consecutive_duplicate_sends [of "\<lparr>PRACTICUM_TOKEN = Some ''p'',
      TELEGRAM_TOKEN = Some ''t'', TELEGRAM_CHAT_ID = Some ''1''\<rparr>" 0 sample_str
      "[answers scenario_b, answers scenario_b]" "initial_state 0" "answers scenario_b"] h
  show ?thesis
    by (simp add: api_answers try_body_scenario_b candidate_def)
qed

subsection \<open>The cursor\<close>

lemma requested_two_cycles:
  "requested (snd (poll_loop str st [inp, inp'])) = [from_date st, from_date (fst (cycle str st inp))]"
  by (simp add: poll_loop_Cons requested_append cycle_requested)

text \<open>
  Claim C2, as stated, fails: the assignment to \<^verbatim>\<open>timestamp\<close> (line 127) comes before
  \<^verbatim>\<open>check_response\<close> and \<^verbatim>\<open>parse_status\<close>. From a state whose cursor is 100, the
  response of scenario C (current date 300, status "bogus") makes the translation fail
  with a \<^verbatim>\<open>KeyError\<close>, and the cursor after the cycle is 300: the request of the next
  cycle is made with 300.
\<close>

theorem cursor_advanced_on_failed_translation:
  "snd (try_body sample_str \<lparr>from_date = JInt 100, previous_message = []\<rparr> (api (answers scenario_c))) =
     Inl (KeyError text_status_unexpected) \<and>
   from_date (fst (cycle sample_str \<lparr>from_date = JInt 100, previous_message = []\<rparr> (answers scenario_c))) =
     JInt 300 \<and>
   requested (snd (poll_loop sample_str \<lparr>from_date = JInt 100, previous_message = []\<rparr>
     [answers scenario_c, answers scenario_a])) = [JInt 100, JInt 300]"
  by (simp add: requested_two_cycles cycle_from_date api_answers try_body_scenario_c)

lemma py_get_not_dict: "type_name response \<noteq> ''dict'' \<Longrightarrow> \<exists>e. py_get response key = Inl e"
  by (cases response) simp_all

text \<open>
  Claim C2, amended. The request of a cycle is made with the cursor the cycle before left.
  A cycle whose fetch fails (\<^verbatim>\<open>get_api_answer\<close> raises) leaves the cursor unchanged, and
  so does a cycle whose decoded document is not a mapping, where \<^verbatim>\<open>get\<close> raises. A
  cycle whose fetch returns a mapping sets the cursor to the value under
  \<^verbatim>\<open>current_date\<close> (\<^verbatim>\<open>None\<close> when the key is missing), whether validation and
  translation then succeed or fail.
\<close>

theorem cursor_carry_through:
  "requested (snd (poll_loop str st [inp, inp'])) = [from_date st, from_date (fst (cycle str st inp))] \<and>
   (get_api_answer (from_date st) (api inp1) = Inl e \<longrightarrow>
      from_date (fst (cycle str st inp1)) = from_date st) \<and>
   (get_api_answer (from_date st) (api inp2) = Inr response \<and> type_name response \<noteq> ''dict'' \<longrightarrow>
      from_date (fst (cycle str st inp2)) = from_date st) \<and>
   (get_api_answer (from_date st) (api inp3) = Inr (JDict d) \<longrightarrow>
      from_date (fst (cycle str st inp3)) =
        (case map_of d ''current_date'' of None \<Rightarrow> JNull | Some v \<Rightarrow> v))"
proof -
  have a: "get_api_answer (from_date st) (api inp1) = Inl e \<longrightarrow>
      from_date (fst (cycle str st inp1)) = from_date st"
    by (simp add: cycle_from_date try_body_def)
  have b: "get_api_answer (from_date st) (api inp2) = Inr response \<and> type_name response \<noteq> ''dict'' \<longrightarrow>
      from_date (fst (cycle str st inp2)) = from_date st"
    using py_get_not_dict [of response "''current_date''"]
    by (auto simp: cycle_from_date try_body_def)
  have c: "get_api_answer (from_date st) (api inp3) = Inr (JDict d) \<longrightarrow>
      from_date (fst (cycle str st inp3)) =
        (case map_of d ''current_date'' of None \<Rightarrow> JNull | Some v \<Rightarrow> v)"
    by (simp add: cycle_from_date try_body_def)
  from a b c show ?thesis
    by (simp only: requested_two_cycles simp_thms)
qed

theorem cursor_carry_through_witness:
  "get_api_answer (JInt 100) (RequestException ''timed out'') =
     Inl (UnboundLocalError (unbound_local_text ''homeworks'')) \<and>
   from_date (fst (cycle sample_str \<lparr>from_date = JInt 100, previous_message = []\<rparr>
     \<lparr>api = RequestException ''timed out'', transport = Delivered\<rparr>)) = JInt 100 \<and>
   get_api_answer (JInt 100) (Response 200 (Decoded (JList []))) = Inr (JList []) \<and>
   type_name (JList []) \<noteq> ''dict'' \<and>
   from_date (fst (cycle sample_str \<lparr>from_date = JInt 100, previous_message = []\<rparr>
     (answers (JList [])))) = JInt 100 \<and>
   get_api_answer (JInt 100) (Response 200 (Decoded scenario_b)) = Inr scenario_b \<and>
   from_date (fst (cycle sample_str \<lparr>from_date = JInt 100, previous_message = []\<rparr>
     (answers scenario_b))) = JInt 200"
proof -
  have h1: "get_api_answer (from_date \<lparr>from_date = JInt 100, previous_message = []\<rparr>)
      (api \<lparr>api = RequestException ''timed out'', transport = Delivered\<rparr>) =
      Inl (UnboundLocalError (unbound_local_text ''homeworks''))"
    by (simp add: get_api_answer_def)
  have h2: "get_api_answer (from_date \<lparr>from_date = JInt 100, previous_message = []\<rparr>)
      (api (answers (JList []))) = Inr (JList []) \<and> type_name (JList []) \<noteq> ''dict''"
    by (simp add: api_answers get_api_answer_ok)
  have h3: "get_api_answer (from_date \<lparr>from_date = JInt 100, previous_message = []\<rparr>)
      (api (answers scenario_b)) =
      Inr (JDict [(''current_date'', JInt 200),
            (''homeworks'',
             JList [JDict [(''homework_name'', JStr ''hw1''), (''status'', JStr ''approved'')]])])"
    by (simp add: api_answers get_api_answer_ok scenario_b_def)
  from cursor_carry_through [of sample_str "\<lparr>from_date = JInt 100, previous_message = []\<rparr>"
      "answers scenario_b" "answers scenario_b"
      "\<lparr>api = RequestException ''timed out'', transport = Delivered\<rparr>"
      "UnboundLocalError (unbound_local_text ''homeworks'')"
      "answers (JList [])" "JList []" "answers scenario_b"
      "[(''current_date'', JInt 200),
            (''homeworks'',
             JList [JDict [(''homework_name'', JStr ''hw1''), (''status'', JStr ''approved'')]])]"]
    h1 h2 h3
  show ?thesis
    by (simp add: api_answers get_api_answer_ok get_api_answer_def scenario_b_def)
qed

subsection \<open>The same response twice\<close>

lemma second_cycle_silent:
  "sent (snd (cycle str (fst (cycle str st \<lparr>api = a, transport = t1\<rparr>)) \<lparr>api = a, transport = t2\<rparr>)) = []"
  using try_body_result [of str "fst (cycle str st \<lparr>api = a, transport = t1\<rparr>)" a st]
  by (simp add: cycle_sent cycle_previous_message)

text \<open>
  Claim C3, as stated, fails where the message is not new. After a first cycle fed the
  response of scenario B, two more consecutive cycles fed the same response make no send
  at all, where the claim has exactly one.
\<close>

theorem third_identical_cycle_sends_nothing:
  "sent (snd (poll_loop sample_str (fst (cycle sample_str (initial_state 0) (answers scenario_b)))
     [answers scenario_b, answers scenario_b])) = []"
  by (simp add: poll_loop_Cons sent_append cycle_sent cycle_previous_message api_answers
      try_body_scenario_b)

text \<open>
  Claim C3, amended. When two consecutive cycles are fed the same API outcome, the second
  one never sends; the two together send at most once, namely the message of the first
  cycle when it differs from \<open>previous_message\<close> and nothing when it equals it. When the
  two cycles are the first two of the run, the message differs from the initial empty
  memory, so exactly one send is made, by the first cycle. What the chat transport does
  with the sends plays no part.
\<close>

theorem same_response_twice:
  "sent (snd (cycle str (fst (cycle str st \<lparr>api = a, transport = t1\<rparr>))
     \<lparr>api = a, transport = t2\<rparr>)) = [] \<and>
   sent (snd (poll_loop str st [\<lparr>api = a, transport = t1\<rparr>, \<lparr>api = a, transport = t2\<rparr>])) =
     (if candidate (snd (try_body str st a)) = previous_message st then []
      else [candidate (snd (try_body str st a))]) \<and>
   sent (snd (poll_loop str (initial_state now)
     [\<lparr>api = a, transport = t1\<rparr>, \<lparr>api = a, transport = t2\<rparr>])) =
     [candidate (snd (try_body str (initial_state now) a))]"
proof -
  have two: "sent (snd (poll_loop str s [\<lparr>api = a, transport = t1\<rparr>, \<lparr>api = a, transport = t2\<rparr>])) =
     (if candidate (snd (try_body str s a)) = previous_message s then []
      else [candidate (snd (try_body str s a))])" for s
    by (simp add: poll_loop_Cons sent_append second_cycle_silent) (simp add: cycle_sent)
  have "candidate (snd (try_body str (initial_state now) a)) \<noteq> previous_message (initial_state now)"
    using candidate_nonempty [of str "initial_state now" a] by (simp add: initial_state_def)
  then show ?thesis
    by (simp add: two second_cycle_silent)
qed

theorem same_response_twice_witness:
  "candidate (snd (try_body sample_str (initial_state 0) (Response 200 (Decoded scenario_b)))) \<noteq>
     previous_message (initial_state 0) \<and>
   sent (snd (poll_loop sample_str (initial_state 0) [answers scenario_b, answers scenario_b])) =
     [status_changed_message ''hw1'' verdict_approved]"
  using same_response_twice [of sample_str "initial_state 0" "Response 200 (Decoded scenario_b)"
      Delivered Delivered 0]
  by (simp add: answers_def try_body_scenario_b candidate_def initial_state_def
      status_changed_message_nonempty)

subsection \<open>A send that fails\<close>

text \<open>
  Claim C6, as stated, fails. \<^verbatim>\<open>send_message\<close> catches the \<^verbatim>\<open>TelegramError\<close> and
  returns, and line 134 then assigns the message to \<^verbatim>\<open>previous_message\<close>. In the first
  cycle of a run fed the response of scenario B, with a transport that raises, the memory
  goes from the empty string to the undelivered message, and a second cycle with the same
  response makes a request and sleeps without any send.
\<close>

theorem failed_send_updates_memory:
  "previous_message (initial_state 0) = [] \<and>
   previous_message (fst (cycle sample_str (initial_state 0)
     \<lparr>api = Response 200 (Decoded scenario_b), transport = TelegramError ''Timed out''\<rparr>)) =
     status_changed_message ''hw1'' verdict_approved \<and>
   status_changed_message ''hw1'' verdict_approved \<noteq> [] \<and>
   snd (poll_loop sample_str (initial_state 0)
     [\<lparr>api = Response 200 (Decoded scenario_b), transport = TelegramError ''Timed out''\<rparr>,
      \<lparr>api = Response 200 (Decoded scenario_b), transport = Delivered\<rparr>]) =
     [Request (JInt 0),
      Send (status_changed_message ''hw1'' verdict_approved) (TelegramError ''Timed out''),
      Sleep RETRY_PERIOD, Request (JInt 200), Sleep RETRY_PERIOD]"
  by (simp add: poll_loop_Cons cycle_def notify_def send_message_def try_body_scenario_b
      candidate_def initial_state_def status_changed_message_nonempty)

text \<open>
  Claim C6, amended. When the send fails with a \<^verbatim>\<open>TelegramError\<close>, the error is
  swallowed and \<open>previous_message\<close> is set to the message of the cycle all the same: the
  state after the cycle is the state a delivered send leaves, and the same message is a
  duplicate in the next cycle, which does not send it.
\<close>

theorem memory_set_whatever_the_transport:
  "previous_message (fst (cycle str st \<lparr>api = a, transport = TelegramError err\<rparr>)) =
     candidate (snd (try_body str st a)) \<and>
   fst (cycle str st \<lparr>api = a, transport = TelegramError err\<rparr>) =
     fst (cycle str st \<lparr>api = a, transport = Delivered\<rparr>) \<and>
   sent (snd (cycle str (fst (cycle str st \<lparr>api = a, transport = TelegramError err\<rparr>))
     \<lparr>api = a, transport = t\<rparr>)) = []"
  by (simp add: cycle_previous_message second_cycle_silent)
     (simp add: cycle_def notify_def Let_def split: prod.splits)

subsection \<open>The text of a status message\<close>

text \<open>
  Claim C4, as stated, fails on the text: the literals of the source are Russian, and the
  message for the submission "hw1" with status "approved" is not the English sentence the
  claim and the three-entry lookup of the specification give.
\<close>

theorem parse_status_text_is_not_the_english_one:
  "parse_status sample_str (JDict [(''homework_name'', JStr ''hw1''), (''status'', JStr ''approved'')]) \<noteq>
     Inr (''Status changed for submission '' @ dq ''hw1'' @
          ''. Reviewed: the reviewer liked everything. Success!'')"
  by (simp add: parse_status_approved status_changed_message_def text_status_changed_def)

lemma parse_status_named:
  assumes "map_of d ''homework_name'' = Some name"
  shows "parse_status str (JDict d) =
     (case map_of d ''status'' of
        None \<Rightarrow> Inl (KeyError (text_missing_key @ dq ''status''))
      | Some status \<Rightarrow>
          if \<not> truthy status then Inl (ValueError text_status_empty)
          else bind (verdict_for status) (\<lambda>found. case found of
                 None \<Rightarrow> Inl (KeyError text_status_unexpected)
               | Some verdict \<Rightarrow> Inr (status_changed_message (format_value str name) verdict)))"
proof -
  from assms have "d \<noteq> []" by auto
  with assms show ?thesis
    by (simp add: parse_status_def bind_def split: option.splits sum.splits)
qed

lemma verdict_for_other:
  "v \<notin> {JStr ''reviewing'', JStr ''approved'', JStr ''rejected''} \<Longrightarrow>
     (\<exists>e. verdict_for v = Inl e) \<or> verdict_for v = Inr None"
  by (cases v) (auto simp: HOMEWORK_VERDICTS_def)

text \<open>
  Claim C4, amended. For every submission that has a name and whose status is one of
  "reviewing", "approved", "rejected", \<open>parse_status\<close> returns the fixed template of
  the source (\<open>text_status_changed\<close>, the name between double quotes, a full stop and a
  space) followed by the value of \<^verbatim>\<open>HOMEWORK_VERDICTS\<close> for that status; the English
  texts of the specification are translations of these literals. With any other status
  value, or none, it raises. A name that is a string is inserted as it is.
\<close>

theorem parse_status_template:
  "map_of d ''homework_name'' = Some name \<Longrightarrow>
   (map_of d ''status'' = Some (JStr ''reviewing'') \<longrightarrow>
      parse_status str (JDict d) =
        Inr (text_status_changed @ dq (format_value str name) @ ''. '' @ verdict_reviewing)) \<and>
   (map_of d ''status'' = Some (JStr ''approved'') \<longrightarrow>
      parse_status str (JDict d) =
        Inr (text_status_changed @ dq (format_value str name) @ ''. '' @ verdict_approved)) \<and>
   (map_of d ''status'' = Some (JStr ''rejected'') \<longrightarrow>
      parse_status str (JDict d) =
        Inr (text_status_changed @ dq (format_value str name) @ ''. '' @ verdict_rejected)) \<and>
   (map_of d ''status'' \<notin>
      {Some (JStr ''reviewing''), Some (JStr ''approved''), Some (JStr ''rejected'')} \<longrightarrow>
      (\<exists>e. parse_status str (JDict d) = Inl e)) \<and>
   format_value str (JStr s) = s"
proof -
  assume name: "map_of d ''homework_name'' = Some name"
  have other: "\<exists>e. parse_status str (JDict d) = Inl e"
    if "map_of d ''status'' \<notin>
      {Some (JStr ''reviewing''), Some (JStr ''approved''), Some (JStr ''rejected'')}"
  proof (cases "map_of d ''status''")
    case None
    then show ?thesis by (simp add: parse_status_named [OF name])
  next
    case (Some v)
    with that have "v \<notin> {JStr ''reviewing'', JStr ''approved'', JStr ''rejected''}" by auto
    from verdict_for_other [OF this] Some show ?thesis
      by (auto simp: parse_status_named [OF name] bind_def)
  qed
  show ?thesis
    using other
    by (auto simp: parse_status_named [OF name] bind_def HOMEWORK_VERDICTS_def
        status_changed_message_def format_value_def)
qed

theorem parse_status_template_witness:
  "map_of [(''homework_name'', JStr ''hw1''), (''status'', JStr ''approved'')] ''homework_name'' =
     Some (JStr ''hw1'') \<and>
   map_of [(''homework_name'', JStr ''hw1''), (''status'', JStr ''approved'')] ''status'' =
     Some (JStr ''approved'') \<and>
   parse_status sample_str (JDict [(''homework_name'', JStr ''hw1''), (''status'', JStr ''approved'')]) =
     Inr (text_status_changed @ dq ''hw1'' @ ''. '' @ verdict_approved) \<and>
   map_of [(''homework_name'', JStr ''hw1''), (''status'', JStr ''bogus'')] ''status'' \<notin>
      {Some (JStr ''reviewing''), Some (JStr ''approved''), Some (JStr ''rejected'')} \<and>
   (\<exists>e. parse_status sample_str
      (JDict [(''homework_name'', JStr ''hw1''), (''status'', JStr ''bogus'')]) = Inl e)"
proof -
  have n1: "map_of [(''homework_name'', JStr ''hw1''), (''status'', JStr ''approved'')]
      ''homework_name'' = Some (JStr ''hw1'')" by simp
  have n2: "map_of [(''homework_name'', JStr ''hw1''), (''status'', JStr ''bogus'')]
      ''homework_name'' = Some (JStr ''hw1'')" by simp
  from parse_status_template [OF n1, of sample_str "''hw1''"]
    parse_status_template [OF n2, of sample_str "''hw1''"]
  show ?thesis
    by (simp add: format_value_def)
qed

subsection \<open>A transport failure of the status API\<close>

lemma slash_in_ENDPOINT: "CHR ''/'' \<in> set ENDPOINT"
  by (simp add: ENDPOINT_def)

lemma no_slash_in_unbound_report:
  "CHR ''/'' \<notin> set (failure_report (UnboundLocalError (unbound_local_text ''homeworks'')))"
  by (simp add: failure_report_def text_failure_def unbound_local_text_def sq_def)

text \<open>
  Claim C5 at a transport failure. When \<^verbatim>\<open>requests.get\<close> raises, \<open>get_api_answer\<close>
  does raise to its caller, but what it raises is the \<^verbatim>\<open>UnboundLocalError\<close> of the
  read of \<^verbatim>\<open>homeworks\<close>. In the first cycle of a run the report sent is
  \<open>text_failure\<close> followed by the text of that error, and the endpoint does not occur
  in it. The sibling path, a response with another status than 200, raises a
  \<^verbatim>\<open>ConnectionError\<close> whose report does contain the endpoint.
\<close>

theorem transport_failure_report_lacks_endpoint:
  "get_api_answer ts (RequestException err) =
     Inl (UnboundLocalError (unbound_local_text ''homeworks'')) \<and>
   sent (snd (cycle str (initial_state now) \<lparr>api = RequestException err, transport = t\<rparr>)) =
     [failure_report (UnboundLocalError (unbound_local_text ''homeworks''))] \<and>
   \<not> sublist ENDPOINT (failure_report (UnboundLocalError (unbound_local_text ''homeworks''))) \<and>
   get_api_answer ts (Response 503 b) = Inl (ConnectionError (unavailable_text 503)) \<and>
   sublist ENDPOINT (failure_report (ConnectionError (unavailable_text 503)))"
proof -
  have fetch: "get_api_answer ts' (RequestException err) =
      Inl (UnboundLocalError (unbound_local_text ''homeworks''))" for ts'
    by (simp add: get_api_answer_def)
  have "candidate (snd (try_body str (initial_state now) (RequestException err))) =
      failure_report (UnboundLocalError (unbound_local_text ''homeworks''))"
    by (simp add: try_body_def fetch candidate_def)
  then have sends: "sent (snd (cycle str (initial_state now)
      \<lparr>api = RequestException err, transport = t\<rparr>)) =
      [failure_report (UnboundLocalError (unbound_local_text ''homeworks''))]"
    by (simp add: cycle_sent initial_state_def failure_report_nonempty)
  have absent: "\<not> sublist ENDPOINT
      (failure_report (UnboundLocalError (unbound_local_text ''homeworks'')))"
    using set_mono_sublist [of ENDPOINT
        "failure_report (UnboundLocalError (unbound_local_text ''homeworks''))"]
      slash_in_ENDPOINT no_slash_in_unbound_report by blast
  have "failure_report (ConnectionError (unavailable_text 503)) =
      (text_failure @ text_endpoint) @ ENDPOINT @
      (text_unavailable @ text_response_code @ decimal 503)"
    by (simp add: failure_report_def unavailable_text_def)
  then have present: "sublist ENDPOINT (failure_report (ConnectionError (unavailable_text 503)))"
    by (simp only: sublist_appendI)
  show ?thesis
    using fetch sends absent present by (simp add: get_api_answer_def HTTP_OK_def)
qed

subsection \<open>The result of validation for no submission\<close>

lemma changed_not_unchanged: "status_changed_message n v \<noteq> text_status_unchanged"
  by (simp add: status_changed_message_def text_status_changed_def text_status_unchanged_def)

lemma parse_status_truthy:
  "truthy h \<Longrightarrow>
     (\<exists>e. parse_status str h = Inl e) \<or>
     (\<exists>n v. parse_status str h = Inr (status_changed_message n v))"
  by (auto simp: parse_status_def bind_def split: sum.splits option.splits)

lemma parse_status_nameless:
  "h \<noteq> [] \<Longrightarrow> map_of h ''homework_name'' = None \<Longrightarrow>
     parse_status str (JDict h) = Inl (KeyError (text_missing_key @ dq ''homework_name''))"
  by (simp add: parse_status_def bind_def)

lemma check_response_first:
  "map_of d ''homeworks'' = Some (JList (first # rest)) \<Longrightarrow> check_response (JDict d) = Inr first"
  by (simp add: check_response_def)

text \<open>
  Claim C7, as stated, fails. The value \<open>check_response\<close> returns for an empty
  collection is the empty dict, and \<open>parse_status\<close> tells it from a submission by its
  truth value only. A well-shaped response whose collection holds one empty mapping is
  validated to that mapping, which has no name field, and translated to the "status did
  not change" message, not to a missing-key error.
\<close>

theorem empty_first_element_reads_as_no_submission:
  "bind (check_response (JDict [(''current_date'', JInt 100), (''homeworks'', JList [JDict []])]))
     (parse_status sample_str) = Inr text_status_unchanged"
  by (simp add: check_response_def bind_def parse_status_sentinel)

text \<open>
  Claim C7, amended. For every well-shaped response whose collection is non-empty and
  whose first element is true in Python's sense (every non-empty mapping is), validation
  followed by translation either raises or produces a status-changed message; it never
  yields the "status did not change" message, and a first element that is a non-empty
  mapping without the name field raises the missing-key error of the name.
\<close>

theorem nonempty_first_element_never_unchanged:
  "map_of d ''homeworks'' = Some (JList (first # rest)) \<Longrightarrow> truthy first \<Longrightarrow>
   ((\<exists>e. bind (check_response (JDict d)) (parse_status str) = Inl e) \<or>
    (\<exists>n v. bind (check_response (JDict d)) (parse_status str) =
       Inr (status_changed_message n v))) \<and>
   bind (check_response (JDict d)) (parse_status str) \<noteq> Inr text_status_unchanged \<and>
   (\<forall>h. first = JDict h \<and> map_of h ''homework_name'' = None \<longrightarrow>
      bind (check_response (JDict d)) (parse_status str) =
        Inl (KeyError (text_missing_key @ dq ''homework_name'')))"
proof -
  assume hw: "map_of d ''homeworks'' = Some (JList (first # rest))" and t: "truthy first"
  have run: "bind (check_response (JDict d)) (parse_status str) = parse_status str first"
    by (simp add: check_response_first [OF hw] bind_def)
  from parse_status_truthy [OF t, of str] changed_not_unchanged
  have "parse_status str first \<noteq> Inr text_status_unchanged" by auto
  moreover have "\<forall>h. first = JDict h \<and> map_of h ''homework_name'' = None \<longrightarrow>
      parse_status str first = Inl (KeyError (text_missing_key @ dq ''homework_name''))"
    using t by (auto simp: parse_status_nameless)
  ultimately show ?thesis
    using parse_status_truthy [OF t, of str] by (simp only: run simp_thms)
qed

theorem nonempty_first_element_never_unchanged_witness:
  "map_of [(''homeworks'', JList [JDict [(''status'', JStr ''approved'')]])] ''homeworks'' =
     Some (JList [JDict [(''status'', JStr ''approved'')]]) \<and>
   truthy (JDict [(''status'', JStr ''approved'')]) \<and>
   map_of [(''status'', JStr ''approved'')] ''homework_name'' = None \<and>
   bind (check_response (JDict [(''homeworks'', JList [JDict [(''status'', JStr ''approved'')]])]))
     (parse_status sample_str) = Inl (KeyError (text_missing_key @ dq ''homework_name''))"
proof -
  have hw: "map_of [(''homeworks'', JList [JDict [(''status'', JStr ''approved'')]])] ''homeworks'' =
     Some (JList (JDict [(''status'', JStr ''approved'')] # []))" by simp
  have t: "truthy (JDict [(''status'', JStr ''approved'')])" by simp
  from nonempty_first_element_never_unchanged [OF hw t, of sample_str] t
  show ?thesis by simp
qed

subsection \<open>The shape of the response\<close>

text \<open>
  Claim C8. \<open>check_response\<close> raises a \<^verbatim>\<open>TypeError\<close> whose text ends with the type
  of the document when the document is not a dict, a \<^verbatim>\<open>KeyError\<close> when the dict has no
  key "homeworks", and a \<^verbatim>\<open>TypeError\<close> whose text ends with the type of the value when
  the value under "homeworks" is not a list. For a well-shaped document it returns the
  first element of the list when there is one, and the empty dict otherwise.
\<close>

theorem check_response_shapes:
  "(type_name response \<noteq> ''dict'' \<longrightarrow>
      check_response response =
        Inl (TypeError (text_wrong_type @ '': '' @ ''<class '' @ sq (type_name response) @ ''>''))) \<and>
   (map_of d1 ''homeworks'' = None \<longrightarrow>
      check_response (JDict d1) = Inl (KeyError (text_missing_key @ dq ''homeworks''))) \<and>
   (map_of d2 ''homeworks'' = Some v \<and> type_name v \<noteq> ''list'' \<longrightarrow>
      check_response (JDict d2) =
        Inl (TypeError (text_wrong_type @ '' '' @ ''<class '' @ sq (type_name v) @ ''>''))) \<and>
   (map_of d3 ''homeworks'' = Some (JList (first # rest)) \<longrightarrow>
      check_response (JDict d3) = Inr first) \<and>
   (map_of d4 ''homeworks'' = Some (JList []) \<longrightarrow>
      check_response (JDict d4) = Inr (JDict []))"
proof -
  have a: "type_name response \<noteq> ''dict'' \<longrightarrow>
      check_response response =
        Inl (TypeError (text_wrong_type @ '': '' @ ''<class '' @ sq (type_name response) @ ''>''))"
    by (cases response) (simp_all add: check_response_def type_repr_def)
  have c: "map_of d2 ''homeworks'' = Some v \<and> type_name v \<noteq> ''list'' \<longrightarrow>
      check_response (JDict d2) =
        Inl (TypeError (text_wrong_type @ '' '' @ ''<class '' @ sq (type_name v) @ ''>''))"
    by (cases v) (simp_all add: check_response_def type_repr_def)
  from a c show ?thesis
    by (simp add: check_response_def)
qed

theorem check_response_shapes_witness:
  "type_name (JList []) \<noteq> ''dict'' \<and>
   check_response (JList []) =
     Inl (TypeError (text_wrong_type @ '': <class '' @ sq ''list'' @ ''>'')) \<and>
   map_of [(''current_date'', JInt 100)] ''homeworks'' = None \<and>
   check_response (JDict [(''current_date'', JInt 100)]) =
     Inl (KeyError (text_missing_key @ dq ''homeworks'')) \<and>
   map_of [(''homeworks'', JStr ''none'')] ''homeworks'' = Some (JStr ''none'') \<and>
   type_name (JStr ''none'') \<noteq> ''list'' \<and>
   check_response (JDict [(''homeworks'', JStr ''none'')]) =
     Inl (TypeError (text_wrong_type @ '' <class '' @ sq ''str'' @ ''>'')) \<and>
   map_of [(''homeworks'', JList [JInt 7, JNull])] ''homeworks'' = Some (JList [JInt 7, JNull]) \<and>
   check_response (JDict [(''homeworks'', JList [JInt 7, JNull])]) = Inr (JInt 7) \<and>
   map_of [(''homeworks'', JList [])] ''homeworks'' = Some (JList []) \<and>
   check_response (JDict [(''homeworks'', JList [])]) = Inr (JDict [])"
  using check_response_shapes [of "JList []" "[(''current_date'', JInt 100)]"
      "[(''homeworks'', JStr ''none'')]" "JStr ''none''"
      "[(''homeworks'', JList [JInt 7, JNull])]" "JInt 7" "[JNull]" "[(''homeworks'', JList [])]"]
  by simp

subsection \<open>Missing credentials\<close>

lemma cycle_no_check: "TokensChecked \<notin> set (snd (cycle str st inp))"
  by (simp add: cycle_def notify_def send_message_def Let_def split: prod.splits)

lemma poll_loop_no_check: "TokensChecked \<notin> set (snd (poll_loop str st inps))"
  by (induction inps arbitrary: st) (simp_all add: poll_loop_Cons cycle_no_check)

text \<open>
  Claim C9. When one of the three credentials is absent, \<open>check_tokens\<close> is false and
  the run of \<open>main\<close> is the check followed by the exit: no bot client is created, no
  request is made, nothing is sent and no cycle runs. In every run, whatever the
  environment and however many cycles, the check is the first event and happens once.
\<close>

theorem missing_credentials_exit:
  "(PRACTICUM_TOKEN env = None \<or> TELEGRAM_TOKEN env = None \<or> TELEGRAM_CHAT_ID env = None \<longrightarrow>
      \<not> check_tokens env \<and> main env now str inps = [TokensChecked, Exit]) \<and>
   hd (main env' now str inps) = TokensChecked \<and>
   count_list (main env' now str inps) TokensChecked = 1"
proof -
  have "count_list (snd (poll_loop str (initial_state now) inps)) TokensChecked = 0"
    using poll_loop_no_check [of str "initial_state now" inps] by (simp add: count_list_0_iff)
  then show ?thesis
    by (auto simp: main_def check_tokens_def token_set_def)
qed

theorem missing_credentials_exit_witness:
  "TELEGRAM_TOKEN \<lparr>PRACTICUM_TOKEN = Some ''p'', TELEGRAM_TOKEN = None,
     TELEGRAM_CHAT_ID = Some ''1''\<rparr> = None \<and>
   main \<lparr>PRACTICUM_TOKEN = Some ''p'', TELEGRAM_TOKEN = None, TELEGRAM_CHAT_ID = Some ''1''\<rparr>
     0 sample_str [answers scenario_b] = [TokensChecked, Exit]"
  using missing_credentials_exit [of "\<lparr>PRACTICUM_TOKEN = Some ''p'', TELEGRAM_TOKEN = None,
     TELEGRAM_CHAT_ID = Some ''1''\<rparr>" 0 sample_str "[answers scenario_b]"]
  by simp

subsection \<open>A response without \<^verbatim>\<open>current_date\<close>\<close>

text \<open>
  Claim C10. When a response with status 200 decodes to a dict without the key
  "current_date", the cycle sets the cursor to \<^verbatim>\<open>None\<close>, and the next request is made
  with \<^verbatim>\<open>None\<close>; the missing key raises nothing, the outcome of the cycle being that of
  validation and translation alone. A value present under the key becomes the cursor as
  it is, whatever its type.
\<close>

theorem cursor_without_current_date:
  "(map_of d ''current_date'' = None \<longrightarrow>
      from_date (fst (cycle str st \<lparr>api = Response 200 (Decoded (JDict d)), transport = t\<rparr>)) = JNull \<and>
      requested (snd (poll_loop str st
        [\<lparr>api = Response 200 (Decoded (JDict d)), transport = t\<rparr>, inp])) = [from_date st, JNull]) \<and>
   (map_of d' ''current_date'' = Some v \<longrightarrow>
      from_date (fst (cycle str st \<lparr>api = Response 200 (Decoded (JDict d')), transport = t\<rparr>)) = v) \<and>
   snd (try_body str st (Response 200 (Decoded (JDict d)))) =
     bind (check_response (JDict d)) (parse_status str)"
  by (simp add: requested_two_cycles cycle_from_date try_body_dict)

theorem cursor_without_current_date_witness:
  "map_of [(''homeworks'', JList [])] ''current_date'' = None \<and>
   from_date (fst (cycle sample_str (initial_state 50)
     \<lparr>api = Response 200 (Decoded (JDict [(''homeworks'', JList [])])), transport = Delivered\<rparr>)) =
     JNull \<and>
   map_of [(''current_date'', JStr ''soon''), (''homeworks'', JList [])] ''current_date'' =
     Some (JStr ''soon'') \<and>
   from_date (fst (cycle sample_str (initial_state 50)
     \<lparr>api = Response 200 (Decoded (JDict [(''current_date'', JStr ''soon''), (''homeworks'', JList [])])),
      transport = Delivered\<rparr>)) = JStr ''soon'' \<and>
   snd (try_body sample_str (initial_state 50)
     (Response 200 (Decoded (JDict [(''homeworks'', JList [])])))) = Inr text_status_unchanged"
  using cursor_without_current_date [of "[(''homeworks'', JList [])]" sample_str "initial_state 50"
      Delivered "answers scenario_a" "[(''current_date'', JStr ''soon''), (''homeworks'', JList [])]"
      "JStr ''soon''"]
  by (simp add: check_response_def bind_def parse_status_sentinel)

end
